theory Spec2Isabelle
  imports Main
begin

section \<open>Data model\<close>

text \<open>
  Timestamps (\<^verbatim>\<open>datetime\<close>) are whole seconds on the UTC time line, so that
  \<^verbatim>\<open>timedelta(hours=1)\<close> is \<open>3600\<close>. A Python \<^verbatim>\<open>str\<close> is a \<open>string\<close>, one
  character per code point, so that \<^verbatim>\<open>len\<close> is \<open>length\<close>; the empty string is the one
  falsy string.
\<close>

type_synonym datetime = int

text \<open>
  \<^verbatim>\<open>app/models/user.py\<close>, class \<^verbatim>\<open>User\<close>: one row of the table \<^verbatim>\<open>users\<close>.
  The column \<^verbatim>\<open>id\<close> is called \<open>user_id\<close> here (\<open>id\<close> is the identity function of HOL).
  The endpoints receive users as dictionaries with the same keys.
\<close>

record user =
  user_id :: int
  username :: string
  email :: string
  hashed_password :: string
  is_active :: bool
  failed_login_attempts :: int
  last_failed_login :: "datetime option"
  account_locked_until :: "datetime option"
  reset_token :: "string option"
  reset_token_expires :: "datetime option"

text \<open>
  The database session. \<open>users\<close> is the committed content of the table. \<open>faults\<close>
  scripts the outcome of the store operations still to come, in order: \<open>None\<close> lets the
  next operation through, \<open>Some msg\<close> makes it fail with the error message \<open>msg\<close>; an
  empty script means that no further operation fails.
\<close>

record db =
  users :: "user list"
  faults :: "string option list"

text \<open>
  What a handler can raise. \<open>HTTPException status detail headers\<close> is FastAPI's exception,
  \<open>PyException msg\<close> any other Python exception with its message. \<open>AccountLocked\<close> (with
  the remaining lock duration) and \<open>InternalFailure\<close> are error kinds of the
  specification's taxonomy that none of the source files raises; they are used by the
  authentication operation modelled from the specification only.
\<close>

datatype exn =
    HTTPException nat string "(string \<times> string) list"
  | PyException string
  | AccountLocked int
  | InternalFailure

datatype log_level = INFO | WARNING | ERROR

type_synonym log_entry = "log_level \<times> string"

text \<open>The JSON bodies the endpoints return.\<close>

datatype response =
    Message string
  | Token string string
  | UserData int string string bool

text \<open>
  An endpoint call yields what it raises or returns, the database after the call, and the
  lines it logged, in order.
\<close>

type_synonym 'a outcome = "(exn + 'a) \<times> db \<times> log_entry list"

text \<open>Request models. The fields carry a prefix, since a user row has the same names.\<close>

record ForgotPasswordRequest =
  fp_email :: string

record ResetPasswordRequest =
  rp_token :: string
  rp_new_password :: string
  rp_email :: string

record UserUpdate =
  uu_username :: string
  uu_email :: string

record PasswordChange =
  pc_current_password :: string
  pc_new_password :: string

text \<open>
  The collaborators imported from \<^verbatim>\<open>app.core.auth\<close>, a module not among the sources,
  are parameters of the model: the password hasher, the session token issuer and its
  lifetime. \<open>lockout_threshold\<close> and \<open>lockout_window\<close> are the configured threshold and
  lock window of the specification's authentication operation.
\<close>

record env =
  get_password_hash :: "string \<Rightarrow> string"
  verify_password :: "string \<Rightarrow> string \<Rightarrow> bool"
  create_access_token :: "string \<Rightarrow> int \<Rightarrow> string"
  ACCESS_TOKEN_EXPIRE_MINUTES :: int
  lockout_threshold :: int
  lockout_window :: int

section \<open>The credential store\<close>

definition take_fault :: "db \<Rightarrow> string option \<times> db" where
  "take_fault d =
     (case faults d of
        [] \<Rightarrow> (None, d)
      | f # fs \<Rightarrow> (f, d\<lparr>faults := fs\<rparr>))"

text \<open>
  Raw SQL through the session, as the endpoints issue it. A \<^verbatim>\<open>SELECT ... LIMIT 1\<close>
  followed by \<^verbatim>\<open>fetchone()\<close> yields the first matching row; an \<^verbatim>\<open>UPDATE ... WHERE\<close>
  followed by \<^verbatim>\<open>db.commit()\<close> rewrites every matching row. Either raises when the
  store fails, and then the table is as it was.
\<close>

definition db_select :: "db \<Rightarrow> (user \<Rightarrow> bool) \<Rightarrow> (exn + user option) \<times> db" where
  "db_select d P =
     (case take_fault d of
        (Some msg, d') \<Rightarrow> (Inl (PyException msg), d')
      | (None, d') \<Rightarrow> (Inr (find P (users d')), d'))"

definition db_update :: "db \<Rightarrow> (user \<Rightarrow> bool) \<Rightarrow> (user \<Rightarrow> user) \<Rightarrow> (exn + unit) \<times> db" where
  "db_update d P f =
     (case take_fault d of
        (Some msg, d') \<Rightarrow> (Inl (PyException msg), d')
      | (None, d') \<Rightarrow> (Inr (), d'\<lparr>users := map (\<lambda>u. if P u then f u else u) (users d')\<rparr>))"

text \<open>
  Modelled from the spec: \<^verbatim>\<open>get_user_by_email\<close> of the module \<^verbatim>\<open>app.core.db_utils\<close>,
  which is not among the sources. It is \<^verbatim>\<open>findByEmail(email) -> User?\<close> of the
  specification's credential store contract: the first row with that email, if any.
\<close>

definition get_user_by_email :: "db \<Rightarrow> string \<Rightarrow> user option" where
  "get_user_by_email d e = find (\<lambda>u. email u = e) (users d)"

text \<open>
  Modelled from the spec: when a stored reset token counts as active, which the missing
  module \<^verbatim>\<open>app.core.db_utils\<close> decides. The specification's data model has a token
  present together with an expiry "in the future": the token of a row is live while
  its expiry is set and not yet reached.
\<close>

definition token_live :: "datetime \<Rightarrow> user \<Rightarrow> bool" where
  "token_live now u =
     (case reset_token_expires u of None \<Rightarrow> False | Some t \<Rightarrow> now < t)"

text \<open>
  Modelled from the spec: \<^verbatim>\<open>get_user_by_reset_token\<close> of the missing module
  \<^verbatim>\<open>app.core.db_utils\<close>. It is \<^verbatim>\<open>findByResetToken(token) -> User?\<close> of the store
  contract, the store resolving lookups "by username, email, or active reset token":
  the first row whose stored token is the given one and is live at the time of the call.
\<close>

definition get_user_by_reset_token :: "datetime \<Rightarrow> db \<Rightarrow> string \<Rightarrow> user option" where
  "get_user_by_reset_token now d tok =
     find (\<lambda>u. reset_token u = Some tok \<and> token_live now u) (users d)"

text \<open>
  Modelled from the spec: the write operation of the store, which the missing module
  \<^verbatim>\<open>app.core.db_utils\<close> wraps. It is
  \<^verbatim>\<open>updateCredentials(id, {...}) -> success:boolean\<close>, "applied atomically per call":
  a write that goes through rewrites every row with the given id and returns \<open>True\<close>, a
  write that fails changes no row and returns \<open>False\<close>.
\<close>

definition update_credentials :: "db \<Rightarrow> int \<Rightarrow> (user \<Rightarrow> user) \<Rightarrow> bool \<times> db" where
  "update_credentials d uid f =
     (case take_fault d of
        (Some msg, d') \<Rightarrow> (False, d')
      | (None, d') \<Rightarrow>
          (True, d'\<lparr>users := map (\<lambda>u. if user_id u = uid then f u else u) (users d')\<rparr>))"

text \<open>
  Modelled from the spec: \<^verbatim>\<open>update_user_password\<close> of the missing module
  \<^verbatim>\<open>app.core.db_utils\<close>, the store's write applied to the password hash.
\<close>

definition update_user_password :: "db \<Rightarrow> int \<Rightarrow> string \<Rightarrow> bool \<times> db" where
  "update_user_password d uid h =
     update_credentials d uid (\<lambda>u. u\<lparr>hashed_password := h\<rparr>)"

text \<open>
  Modelled from the spec: \<^verbatim>\<open>store_reset_token\<close> of the missing module
  \<^verbatim>\<open>app.core.db_utils\<close>, the store's write applied to the two reset-token fields
  together; called with \<^verbatim>\<open>None, None\<close> it clears them.
\<close>

definition store_reset_token ::
  "db \<Rightarrow> int \<Rightarrow> string option \<Rightarrow> datetime option \<Rightarrow> bool \<times> db" where
  "store_reset_token d uid tok expires_at =
     update_credentials d uid (\<lambda>u. u\<lparr>reset_token := tok, reset_token_expires := expires_at\<rparr>)"

section \<open>Exceptions as the handlers see them\<close>

text \<open>The decimal digits of a status code, as Python prints an \<^verbatim>\<open>int\<close>.\<close>

fun show_nat :: "nat \<Rightarrow> string" where
  "show_nat n =
     (if n < 10 then [''0123456789'' ! n]
      else show_nat (n div 10) @ [''0123456789'' ! (n mod 10)])"

text \<open>
  \<^verbatim>\<open>str(e)\<close>, as the f-strings of the handlers format a caught exception: the message
  of a plain exception, and status and detail of an \<^verbatim>\<open>HTTPException\<close>.
\<close>

fun str_exn :: "exn \<Rightarrow> string" where
  "str_exn (HTTPException code detail hs) = show_nat code @ '': '' @ detail"
| "str_exn (PyException msg) = msg"
| "str_exn (AccountLocked r) = ''AccountLocked''"
| "str_exn InternalFailure = ''InternalFailure''"

section \<open>Password-reset consumption\<close>

text \<open>
  \<^verbatim>\<open>reset_password\<close>, lines 271 to 293: the inner \<^verbatim>\<open>try\<close>. The password is written
  first; when that write reports success the token fields are cleared by a second write
  whose result is dropped. A write reporting failure raises
  \<^verbatim>\<open>Exception("Failed to update password")\<close>, which the inner handler logs and turns
  into status 500.
\<close>

definition reset_password_update ::
  "env \<Rightarrow> db \<Rightarrow> user \<Rightarrow> string \<Rightarrow> response outcome" where
  "reset_password_update ev d u new_password =
     (let hashed = get_password_hash ev new_password;
          (success, d1) = update_user_password d (user_id u) hashed
      in if success then
           (let (cleared, d2) = store_reset_token d1 (user_id u) None None
            in (Inr (Message ''Password has been reset successfully''), d2,
                [(INFO, ''Password reset successful for user: '' @ username u)]))
         else
           (Inl (HTTPException 500 ''An error occurred while resetting your password'' []), d1,
            [(ERROR, ''Error updating password: ''
                       @ str_exn (PyException ''Failed to update password''))]))"

text \<open>
  \<^verbatim>\<open>reset_password\<close>, lines 257 to 262: the user is looked up by token first, and by
  the email of the request when no user is found by token. \<open>now\<close> is the clock the
  token lookup reads.
\<close>

definition resolve_reset_user ::
  "datetime \<Rightarrow> db \<Rightarrow> ResetPasswordRequest \<Rightarrow> user option" where
  "resolve_reset_user now d request =
     (case get_user_by_reset_token now d (rp_token request) of
        Some u \<Rightarrow> Some u
      | None \<Rightarrow> get_user_by_email d (rp_email request))"

text \<open>
  \<^verbatim>\<open>reset_password\<close>, lines 226 to 293. Every exception the body raises is an
  \<^verbatim>\<open>HTTPException\<close>, which the outer handler (\<^verbatim>\<open>except HTTPException: raise\<close>) passes on
  as it is.
\<close>

definition reset_password ::
  "env \<Rightarrow> datetime \<Rightarrow> db \<Rightarrow> ResetPasswordRequest \<Rightarrow> response outcome" where
  "reset_password ev now d request =
     (if length (rp_token request) < 32 then
        (Inl (HTTPException 400 ''Invalid token format'' []), d, [])
      else if rp_email request = [] then
        (Inl (HTTPException 400 ''Please provide your email along with the token'' []), d,
         [(INFO, ''Using demo token validation approach'')])
      else
        (case resolve_reset_user now d request of
           None \<Rightarrow>
             (Inl (HTTPException 400 ''Invalid token or email'' []), d,
              [(INFO, ''Using demo token validation approach''),
               (WARNING, ''Reset password attempt for non-existent email: ''
                           @ rp_email request)])
         | Some u \<Rightarrow>
             (case reset_password_update ev d u (rp_new_password request) of
                (r, d', lg) \<Rightarrow>
                  (r, d', (INFO, ''Using demo token validation approach'') # lg))))"

text \<open>
  The row \<open>v\<close> after a consumption that resolved the user \<open>u\<close> and whose two writes both
  went through: the new hash is stored and both token fields are empty.
\<close>

definition consumed :: "env \<Rightarrow> ResetPasswordRequest \<Rightarrow> user \<Rightarrow> user \<Rightarrow> user" where
  "consumed ev request u v =
     (if user_id v = user_id u
      then v\<lparr>hashed_password := get_password_hash ev (rp_new_password request),
             reset_token := None, reset_token_expires := None\<rparr>
      else v)"

text \<open>The specification's names for the failures of this operation.\<close>

definition MalformedToken :: exn where
  "MalformedToken = HTTPException 400 ''Invalid token format'' []"

definition InvalidResetRequest :: exn where
  "InvalidResetRequest = HTTPException 400 ''Invalid token or email'' []"

definition ResetPersistenceError :: exn where
  "ResetPersistenceError =
     HTTPException 500 ''An error occurred while resetting your password'' []"

section \<open>The request schema of password-reset consumption\<close>

text \<open>
  \<^verbatim>\<open>ResetPasswordRequest\<close> declares \<^verbatim>\<open>token: str\<close>, \<^verbatim>\<open>new_password: str\<close> and
  \<^verbatim>\<open>email: EmailStr\<close>, all required: the framework answers a body that lacks one of
  them, or whose email does not validate, with status 422 and never calls the handler.
  \<open>EmailStr\<close> keeps only what every accepted address satisfies: one \<open>@\<close>, with a
  non-empty local part before it and a non-empty domain after it. The validator of the
  framework accepts no more than that.
\<close>

definition EmailStr :: "string \<Rightarrow> bool" where
  "EmailStr s =
     (let local_part = takeWhile (\<lambda>c. c \<noteq> CHR ''@'') s;
          rest = dropWhile (\<lambda>c. c \<noteq> CHR ''@'') s
      in local_part \<noteq> [] \<and> 1 < length rest \<and> CHR ''@'' \<notin> set (tl rest))"

definition parse_ResetPasswordRequest ::
  "(string \<Rightarrow> string option) \<Rightarrow> exn + ResetPasswordRequest" where
  "parse_ResetPasswordRequest body =
     (case (body ''token'', body ''new_password'', body ''email'') of
        (Some t, Some p, Some e) \<Rightarrow>
          if EmailStr e then Inr \<lparr>rp_token = t, rp_new_password = p, rp_email = e\<rparr>
          else Inl (HTTPException 422 ''value is not a valid email address'' [])
      | _ \<Rightarrow> Inl (HTTPException 422 ''field required'' []))"

definition reset_password_endpoint ::
  "env \<Rightarrow> datetime \<Rightarrow> db \<Rightarrow> (string \<Rightarrow> string option) \<Rightarrow> response outcome" where
  "reset_password_endpoint ev now d body =
     (case parse_ResetPasswordRequest body of
        Inl e \<Rightarrow> (Inl e, d, [])
      | Inr request \<Rightarrow> reset_password ev now d request)"

section \<open>Password-reset issuance\<close>

text \<open>
  \<^verbatim>\<open>forgot_password\<close>, lines 181 to 206. \<open>fresh\<close> is the value
  \<^verbatim>\<open>secrets.token_urlsafe(32)\<close> draws, \<open>now\<close> what \<^verbatim>\<open>datetime.now(timezone.utc)\<close>
  reads. Nothing in the body raises (the lookup yields a user or none, the write a
  boolean), so the handler for \<^verbatim>\<open>Exception\<close> is never entered.
\<close>

definition generic_reset_message :: string where
  "generic_reset_message =
     ''If your email is registered, you will receive password reset instructions.''"

definition forgot_password ::
  "string \<Rightarrow> datetime \<Rightarrow> db \<Rightarrow> ForgotPasswordRequest \<Rightarrow> response outcome" where
  "forgot_password fresh now d request =
     (case get_user_by_email d (fp_email request) of
        None \<Rightarrow>
          (Inr (Message generic_reset_message), d,
           [(INFO, ''Forgot password request for non-existent email: '' @ fp_email request)])
      | Some u \<Rightarrow>
          (let expires_at = now + 3600;
               (token_stored, d') = store_reset_token d (user_id u) (Some fresh) (Some expires_at)
           in (Inr (Message generic_reset_message), d',
               [(INFO, ''Password reset requested for user: '' @ username u),
                (INFO, ''Reset token generated: '' @ fresh),
                (if token_stored then (INFO, ''Token stored in database'')
                 else (WARNING,
                   ''Token could not be stored in database - it will only be logged''))])))"

section \<open>Password change\<close>

text \<open>
  \<^verbatim>\<open>change_password\<close>, lines 144 to 159: the body of the \<^verbatim>\<open>try\<close>. \<open>current_user\<close>
  is the dictionary the authentication dependency hands to the endpoint.
\<close>

definition change_password_body ::
  "env \<Rightarrow> db \<Rightarrow> user \<Rightarrow> PasswordChange \<Rightarrow> (exn + response) \<times> db" where
  "change_password_body ev d current_user password_change =
     (if \<not> verify_password ev (pc_current_password password_change)
              (hashed_password current_user) then
        (Inl (HTTPException 400 ''Incorrect current password'' []), d)
      else
        (let hashed = get_password_hash ev (pc_new_password password_change)
         in case db_update d (\<lambda>u. user_id u = user_id current_user)
                   (\<lambda>u. u\<lparr>hashed_password := hashed\<rparr>) of
              (Inl e, d') \<Rightarrow> (Inl e, d')
            | (Inr x, d') \<Rightarrow> (Inr (Message ''Password changed successfully''), d')))"

text \<open>
  \<^verbatim>\<open>change_password\<close>, lines 143 to 165: the only handler is
  \<^verbatim>\<open>except Exception as e\<close>, and \<^verbatim>\<open>HTTPException\<close> is an \<^verbatim>\<open>Exception\<close>, so
  whatever the body raises is logged and raised again with status 500.
\<close>

definition change_password ::
  "env \<Rightarrow> db \<Rightarrow> user \<Rightarrow> PasswordChange \<Rightarrow> response outcome" where
  "change_password ev d current_user password_change =
     (case change_password_body ev d current_user password_change of
        (Inl e, d') \<Rightarrow>
          (Inl (HTTPException 500
                  (''An error occurred while changing the password: '' @ str_exn e) []),
           d', [(ERROR, ''Error changing password: '' @ str_exn e)])
      | (Inr r, d') \<Rightarrow> (Inr r, d', []))"

definition IncorrectPassword :: exn where
  "IncorrectPassword = HTTPException 400 ''Incorrect current password'' []"

section \<open>Profile update\<close>

text \<open>\<^verbatim>\<open>update_user_profile\<close>, lines 98 to 129: the body of the \<^verbatim>\<open>try\<close>.\<close>

definition update_user_profile_body ::
  "db \<Rightarrow> user \<Rightarrow> UserUpdate \<Rightarrow> (exn + response) \<times> db" where
  "update_user_profile_body d current_user user_update =
     (case (if uu_username user_update \<noteq> username current_user then
              (case db_select d (\<lambda>u. username u = uu_username user_update) of
                 (Inl e, d1) \<Rightarrow> (Inl e, d1)
               | (Inr (Some row), d1) \<Rightarrow>
                   (Inl (HTTPException 400 ''Username already exists'' []), d1)
               | (Inr None, d1) \<Rightarrow> (Inr (), d1))
            else (Inr (), d)) of
        (Inl e, d1) \<Rightarrow> (Inl e, d1)
      | (Inr x, d1) \<Rightarrow>
          (case (if uu_email user_update \<noteq> email current_user then
                   (case db_select d1 (\<lambda>u. email u = uu_email user_update) of
                      (Inl e, d2) \<Rightarrow> (Inl e, d2)
                    | (Inr (Some row), d2) \<Rightarrow>
                        (Inl (HTTPException 400 ''Email already exists'' []), d2)
                    | (Inr None, d2) \<Rightarrow> (Inr (), d2))
                 else (Inr (), d1)) of
             (Inl e, d2) \<Rightarrow> (Inl e, d2)
           | (Inr y, d2) \<Rightarrow>
               (case db_update d2 (\<lambda>u. user_id u = user_id current_user)
                       (\<lambda>u. u\<lparr>username := uu_username user_update,
                               email := uu_email user_update\<rparr>) of
                  (Inl e, d3) \<Rightarrow> (Inl e, d3)
                | (Inr z, d3) \<Rightarrow>
                    (Inr (UserData (user_id current_user) (uu_username user_update)
                            (uu_email user_update) (is_active current_user)), d3))))"

text \<open>
  \<^verbatim>\<open>update_user_profile\<close>, lines 97 to 135, with its single handler for
  \<^verbatim>\<open>Exception\<close>.
\<close>

definition update_user_profile :: "db \<Rightarrow> user \<Rightarrow> UserUpdate \<Rightarrow> response outcome" where
  "update_user_profile d current_user user_update =
     (case update_user_profile_body d current_user user_update of
        (Inl e, d') \<Rightarrow>
          (Inl (HTTPException 500
                  (''An error occurred while updating the profile: '' @ str_exn e) []),
           d', [(ERROR, ''Error updating user profile: '' @ str_exn e)])
      | (Inr r, d') \<Rightarrow> (Inr r, d', []))"

text \<open>
  The columns a profile update has no business with, and the rows of the other users.
\<close>

definition credential_fields ::
  "user \<Rightarrow> int \<times> string \<times> bool \<times> int \<times> datetime option \<times> datetime option
           \<times> string option \<times> datetime option" where
  "credential_fields u =
     (user_id u, hashed_password u, is_active u, failed_login_attempts u,
      last_failed_login u, account_locked_until u, reset_token u, reset_token_expires u)"

definition other_rows :: "int \<Rightarrow> db \<Rightarrow> user list" where
  "other_rows uid d = filter (\<lambda>u. user_id u \<noteq> uid) (users d)"

section \<open>Authentication\<close>

text \<open>
  Modelled from the spec: step (2) of the specification's authentication operation,
  which the missing \<^verbatim>\<open>authenticate_user\<close> performs. The account is locked while
  \<open>account_locked_until\<close> is set and in the future; the result is the remaining lock
  duration.
\<close>

definition lock_remaining :: "datetime \<Rightarrow> user \<Rightarrow> int option" where
  "lock_remaining now u =
     (case account_locked_until u of
        None \<Rightarrow> None
      | Some t \<Rightarrow> if now < t then Some (t - now) else None)"

text \<open>
  Modelled from the spec: the update of step (3), on a password mismatch. The failure
  count becomes \<open>n\<close>, the failure is stamped with the time, and when the new count
  reaches the configured threshold the account is locked for the configured window.
\<close>

definition record_failure :: "env \<Rightarrow> datetime \<Rightarrow> int \<Rightarrow> user \<Rightarrow> user" where
  "record_failure ev now n v =
     (if lockout_threshold ev \<le> n then
        v\<lparr>failed_login_attempts := n, last_failed_login := Some now,
          account_locked_until := Some (now + lockout_window ev)\<rparr>
      else v\<lparr>failed_login_attempts := n, last_failed_login := Some now\<rparr>)"

text \<open>
  Modelled from the spec: the update of step (4), on a match. The failure count is
  reset and the lock cleared.
\<close>

definition record_success :: "user \<Rightarrow> user" where
  "record_success v = v\<lparr>failed_login_attempts := 0, account_locked_until := None\<rparr>"

text \<open>
  Modelled from the spec: \<^verbatim>\<open>authenticate_user\<close> of \<^verbatim>\<open>app.core.auth\<close> is not among
  the sources; the endpoint below only calls it. This is the authentication operation
  of the specification, step by step: (1) look the user up by username, and report
  invalid credentials when there is none; (2) when the account is locked, fail with
  \<open>AccountLocked\<close> and the remaining duration; (3) on a password mismatch count the
  failure, persist, and report invalid credentials; (4) on a match persist the reset
  counter and return the user. Invalid credentials are the falsy return value the
  endpoint tests for; the other failures are raised. A store fault while persisting is
  the taxonomy's \<open>InternalFailure\<close>.
\<close>

definition authenticate_user ::
  "env \<Rightarrow> datetime \<Rightarrow> db \<Rightarrow> string \<Rightarrow> string \<Rightarrow> (exn + user option) \<times> db" where
  "authenticate_user ev now d uname password =
     (case find (\<lambda>u. username u = uname) (users d) of
        None \<Rightarrow> (Inr None, d)
      | Some u \<Rightarrow>
          (case lock_remaining now u of
             Some r \<Rightarrow> (Inl (AccountLocked r), d)
           | None \<Rightarrow>
               if verify_password ev password (hashed_password u) then
                 (case update_credentials d (user_id u) record_success of
                    (True, d') \<Rightarrow> (Inr (Some (record_success u)), d')
                  | (False, d') \<Rightarrow> (Inl InternalFailure, d'))
               else
                 (case update_credentials d (user_id u)
                         (record_failure ev now (failed_login_attempts u + 1)) of
                    (True, d') \<Rightarrow> (Inr None, d')
                  | (False, d') \<Rightarrow> (Inl InternalFailure, d'))))"

text \<open>
  \<^verbatim>\<open>login_for_access_token\<close>, lines 59 to 72. What \<^verbatim>\<open>authenticate_user\<close> raises
  passes through; its falsy return is answered with status 401.
\<close>

definition InvalidCredentials :: exn where
  "InvalidCredentials =
     HTTPException 401 ''Incorrect username or password'' [(''WWW-Authenticate'', ''Bearer'')]"

definition login_for_access_token ::
  "env \<Rightarrow> datetime \<Rightarrow> db \<Rightarrow> string \<Rightarrow> string \<Rightarrow> response outcome" where
  "login_for_access_token ev now d uname password =
     (case authenticate_user ev now d uname password of
        (Inl e, d') \<Rightarrow> (Inl e, d', [])
      | (Inr None, d') \<Rightarrow>
          (Inl (HTTPException 401 ''Incorrect username or password''
                  [(''WWW-Authenticate'', ''Bearer'')]), d', [])
      | (Inr (Some u), d') \<Rightarrow>
          (Inr (Token (create_access_token ev (username u) (ACCESS_TOKEN_EXPIRE_MINUTES ev))
                  ''bearer''), d', []))"

text \<open>
  A run of login attempts for one username, each with its time and password: the
  answers in order, and the database after the last one.
\<close>

fun login_attempts ::
  "env \<Rightarrow> db \<Rightarrow> string \<Rightarrow> (datetime \<times> string) list \<Rightarrow> (exn + response) list \<times> db" where
  "login_attempts ev d uname [] = ([], d)"
| "login_attempts ev d uname ((t, pw) # rest) =
     (case login_for_access_token ev t d uname pw of
        (r, d', lg) \<Rightarrow>
          (case login_attempts ev d' uname rest of
             (rs, d'') \<Rightarrow> (r # rs, d'')))"

text \<open>
  The table after one counted failure of the user \<open>u\<close> at time \<open>t\<close>, as step (3) of
  the authentication operation persists it.
\<close>

definition failed_once :: "env \<Rightarrow> datetime \<Rightarrow> user \<Rightarrow> db \<Rightarrow> db" where
  "failed_once ev t u d =
     d\<lparr>users := map (\<lambda>v. if user_id v = user_id u
                           then record_failure ev t (failed_login_attempts u + 1) v else v)
                     (users d)\<rparr>"

section \<open>A small installation\<close>

text \<open>
  A hasher that can be evaluated (it prefixes the password), a one-user table, and a
  token of the shape \<^verbatim>\<open>secrets.token_urlsafe(32)\<close> produces (43 characters).
\<close>

definition demo_env :: env where
  "demo_env =
     \<lparr>get_password_hash = (\<lambda>p. ''#'' @ p),
      verify_password = (\<lambda>p h. h = ''#'' @ p),
      create_access_token = (\<lambda>sub minutes. ''session:'' @ sub),
      ACCESS_TOKEN_EXPIRE_MINUTES = 30,
      lockout_threshold = 3,
      lockout_window = 900\<rparr>"

definition alice :: user where
  "alice =
     \<lparr>user_id = 1, username = ''alice'', email = ''a@x.com'',
      hashed_password = ''#P@ss1'', is_active = True,
      failed_login_attempts = 0, last_failed_login = None, account_locked_until = None,
      reset_token = None, reset_token_expires = None\<rparr>"

definition demo_token :: string where
  "demo_token = ''kJ8s0Qw3ZrT5uYb7Nc9Xe1Vg2Hi4Lm6Op8Rq0St2UvA''"

definition demo_db :: db where
  "demo_db = \<lparr>users = [alice], faults = []\<rparr>"

definition demo_request :: ResetPasswordRequest where
  "demo_request =
     \<lparr>rp_token = demo_token, rp_new_password = ''NewP@ss2'', rp_email = ''a@x.com''\<rparr>"

text \<open>The table after a reset token was issued to the one user at time 100.\<close>

definition demo_issued :: db where
  "demo_issued =
     \<lparr>users = [alice\<lparr>reset_token := Some demo_token, reset_token_expires := Some 3700\<rparr>],
      faults = []\<rparr>"

section \<open>Lookups and writes\<close>

lemma find_Some_mem: "find P xs = Some x \<Longrightarrow> x \<in> set xs \<and> P x"
  by (induction xs) (auto split: if_splits)

lemma find_map_preserved:
  assumes "find P xs = Some x" and "\<And>y. P (g y) = P y"
  shows "find P (map g xs) = Some (g x)"
  using assms by (induction xs) (auto split: if_splits)

lemma users_take_fault [simp]: "users (snd (take_fault d)) = users d"
  by (simp add: take_fault_def split: list.splits)

lemma resolve_reset_user_mem:
  "resolve_reset_user now d request = Some u \<Longrightarrow> u \<in> set (users d)"
  by (auto simp: resolve_reset_user_def get_user_by_reset_token_def get_user_by_email_def
      dest: find_Some_mem split: option.splits)

lemma get_user_by_email_exists:
  "u \<in> set (users d) \<Longrightarrow> get_user_by_email d (email u) \<noteq> None"
  by (auto simp: get_user_by_email_def find_None_iff)

lemma email_resolves:
  assumes "get_user_by_email d (rp_email request) \<noteq> None"
  shows "resolve_reset_user now d request \<noteq> None"
  using assms by (auto simp: resolve_reset_user_def split: option.splits)

lemma email_consumed [simp]: "email (consumed ev request u v) = email v"
  by (simp add: consumed_def)

section \<open>Password-reset consumption: what is checked\<close>

text \<open>
  C8. A password-reset consumption call whose token has fewer than 32 characters is
  rejected as malformed (status 400, "Invalid token format") before anything else
  happens: the database, its pending store operations included, is untouched, and
  nothing is logged.
\<close>

theorem reset_password_short_token:
  assumes "length (rp_token request) < 32"
  shows "reset_password ev now d request = (Inl MalformedToken, d, [])"
  using assms by (simp add: reset_password_def MalformedToken_def)

theorem reset_password_short_token_witness:
  "length (rp_token (demo_request\<lparr>rp_token := ''guess''\<rparr>)) < 32 \<and>
   reset_password demo_env 0 demo_db (demo_request\<lparr>rp_token := ''guess''\<rparr>)
     = (Inl MalformedToken, demo_db, [])"
  using reset_password_short_token [of "demo_request\<lparr>rp_token := ''guess''\<rparr>" demo_env 0 demo_db]
  by (simp add: demo_request_def)

text \<open>
  With no store fault pending, a well-formed request that resolves a user runs to the
  end: both writes go through.
\<close>

lemma reset_password_no_faults:
  assumes "faults d = []" and "32 \<le> length (rp_token request)" and "rp_email request \<noteq> []"
    and "resolve_reset_user now d request = Some u"
  shows "reset_password ev now d request =
     (Inr (Message ''Password has been reset successfully''),
      d\<lparr>users := map (consumed ev request u) (users d)\<rparr>,
      [(INFO, ''Using demo token validation approach''),
       (INFO, ''Password reset successful for user: '' @ username u)])"
  using assms
  by (simp add: reset_password_def reset_password_update_def update_user_password_def
      store_reset_token_def update_credentials_def take_fault_def consumed_def comp_def
      if_distrib cong: if_cong)

lemma reset_password_success_shape:
  assumes "fst (reset_password ev now d request) = Inr m"
  shows "32 \<le> length (rp_token request) \<and> rp_email request \<noteq> []"
  using assms by (auto simp: reset_password_def split: if_splits)

lemma reset_password_resolved_no_faults:
  assumes "faults d = []" and "32 \<le> length (rp_token request)" and "rp_email request \<noteq> []"
    and "resolve_reset_user now d request \<noteq> None"
  shows "fst (reset_password ev now d request) =
     Inr (Message ''Password has been reset successfully'')"
  using assms reset_password_no_faults [of d request now _ ev] by auto

text \<open>
  C1, as the specification states it, fails: a user found through the email of the
  request has the password replaced although no reset token is stored for that user at
  all; and a token whose expiry (3700) has passed is still honoured at time 3701 when
  the owner's email comes with it.
\<close>

theorem reset_password_absent_token_accepted:
  "reset_token alice = None \<and>
   resolve_reset_user 0 demo_db demo_request = Some alice \<and>
   reset_password demo_env 0 demo_db demo_request =
     (Inr (Message ''Password has been reset successfully''),
      demo_db\<lparr>users := [alice\<lparr>hashed_password := ''#NewP@ss2''\<rparr>]\<rparr>,
      [(INFO, ''Using demo token validation approach''),
       (INFO, ''Password reset successful for user: alice'')]) \<and>
   token_live 3701 (hd (users demo_issued)) = False \<and>
   fst (reset_password demo_env 3701 demo_issued demo_request) =
     Inr (Message ''Password has been reset successfully'')"
  by (simp add: reset_password_def reset_password_update_def update_user_password_def
      store_reset_token_def update_credentials_def resolve_reset_user_def
      get_user_by_reset_token_def get_user_by_email_def take_fault_def token_live_def
      demo_db_def demo_issued_def demo_request_def demo_env_def demo_token_def alice_def)

text \<open>
  C1, amended. For a consumption call with a token of at least 32 characters and a
  non-empty email, the answer depends on the lookups and on the password write alone,
  never on a comparison with the resolved user's stored token or its expiry: the call
  fails with \<open>InvalidResetRequest\<close> exactly when neither the token nor the email
  resolves a user; with a user resolved it succeeds when the password write goes
  through and fails with \<open>ResetPersistenceError\<close> when it does not. A call that fails
  does not update the password: rejected with \<open>InvalidResetRequest\<close> it leaves the
  database as it was, and whatever the failure, no row of the table has changed.
\<close>

theorem reset_password_result:
  assumes "32 \<le> length (rp_token request)" and "rp_email request \<noteq> []"
  shows "fst (reset_password ev now d request) =
     (case resolve_reset_user now d request of
        None \<Rightarrow> Inl InvalidResetRequest
      | Some u \<Rightarrow>
          (case fst (take_fault d) of
             None \<Rightarrow> Inr (Message ''Password has been reset successfully'')
           | Some msg \<Rightarrow> Inl ResetPersistenceError)) \<and>
     (resolve_reset_user now d request = None \<longrightarrow>
        fst (snd (reset_password ev now d request)) = d) \<and>
     (\<forall>e. fst (reset_password ev now d request) = Inl e \<longrightarrow>
        users (fst (snd (reset_password ev now d request))) = users d)"
proof (intro conjI)
  show "fst (reset_password ev now d request) =
     (case resolve_reset_user now d request of
        None \<Rightarrow> Inl InvalidResetRequest
      | Some u \<Rightarrow>
          (case fst (take_fault d) of
             None \<Rightarrow> Inr (Message ''Password has been reset successfully'')
           | Some msg \<Rightarrow> Inl ResetPersistenceError))"
    using assms
    by (auto simp: reset_password_def reset_password_update_def update_user_password_def
        store_reset_token_def update_credentials_def InvalidResetRequest_def
        ResetPersistenceError_def Let_def
        split: option.splits prod.splits)
  show "resolve_reset_user now d request = None \<longrightarrow>
        fst (snd (reset_password ev now d request)) = d"
    using assms by (simp add: reset_password_def)
  show "\<forall>e. fst (reset_password ev now d request) = Inl e \<longrightarrow>
        users (fst (snd (reset_password ev now d request))) = users d"
    using assms
    by (auto simp: reset_password_def reset_password_update_def update_user_password_def
        store_reset_token_def update_credentials_def take_fault_def Let_def
        split: option.splits prod.splits list.splits if_splits)
qed

theorem reset_password_result_witness:
  "32 \<le> length (rp_token demo_request) \<and> rp_email demo_request \<noteq> [] \<and>
   reset_token alice = None \<and>
   fst (reset_password demo_env 0 demo_db demo_request) =
     Inr (Message ''Password has been reset successfully'') \<and>
   resolve_reset_user 0 demo_db (demo_request\<lparr>rp_email := ''nobody@x.com''\<rparr>) = None \<and>
   fst (reset_password demo_env 0 demo_db (demo_request\<lparr>rp_email := ''nobody@x.com''\<rparr>)) =
     Inl InvalidResetRequest \<and>
   fst (snd (reset_password demo_env 0 demo_db (demo_request\<lparr>rp_email := ''nobody@x.com''\<rparr>))) =
     demo_db"
  using reset_password_result [of demo_request demo_env 0 demo_db]
    reset_password_result [of "demo_request\<lparr>rp_email := ''nobody@x.com''\<rparr>" demo_env 0 demo_db]
  by (simp add: resolve_reset_user_def get_user_by_reset_token_def get_user_by_email_def
      take_fault_def demo_db_def demo_request_def demo_token_def alice_def)

section \<open>Password-reset consumption: single use\<close>

text \<open>
  C2, as the specification states it, fails: the token issued to the one user is
  consumed at time 200, which replaces the password and empties the token fields; the
  same request presented again at time 300 is answered with success once more.
\<close>

theorem reset_password_second_consumption_succeeds:
  "fst (reset_password demo_env 200 demo_issued demo_request) =
     Inr (Message ''Password has been reset successfully'') \<and>
   users (fst (snd (reset_password demo_env 200 demo_issued demo_request))) =
     [alice\<lparr>hashed_password := ''#NewP@ss2''\<rparr>] \<and>
   rp_email demo_request = email alice \<and>
   fst (reset_password demo_env 300
          (fst (snd (reset_password demo_env 200 demo_issued demo_request))) demo_request) =
     Inr (Message ''Password has been reset successfully'')"
  by (simp add: reset_password_def reset_password_update_def update_user_password_def
      store_reset_token_def update_credentials_def resolve_reset_user_def
      get_user_by_reset_token_def get_user_by_email_def take_fault_def token_live_def
      demo_issued_def demo_request_def demo_env_def demo_token_def alice_def)

text \<open>
  C2, amended. After a successful consumption (no store fault pending) the token fields
  of the resolved user are empty, yet a second attempt presenting the same token and
  that user's email, at any later time, succeeds again: the user is found through the
  email.
\<close>

theorem reset_password_repeat:
  assumes "resolve_reset_user now d request = Some u"
    and "rp_email request = email u"
    and "faults d = []"
    and "fst (reset_password ev now d request) = Inr m"
  shows "(\<forall>v \<in> set (users (fst (snd (reset_password ev now d request)))).
            user_id v = user_id u \<longrightarrow> reset_token v = None \<and> reset_token_expires v = None) \<and>
         fst (reset_password ev now' (fst (snd (reset_password ev now d request))) request) =
           Inr (Message ''Password has been reset successfully'')"
proof -
  let ?d' = "d\<lparr>users := map (consumed ev request u) (users d)\<rparr>"
  from assms(4) have shape: "32 \<le> length (rp_token request)" "rp_email request \<noteq> []"
    using reset_password_success_shape by blast+
  have first: "fst (snd (reset_password ev now d request)) = ?d'"
    using reset_password_no_faults [OF assms(3) shape assms(1)] by simp
  have cleared: "\<forall>v \<in> set (users ?d'). user_id v = user_id u \<longrightarrow>
      reset_token v = None \<and> reset_token_expires v = None"
    by (auto simp: consumed_def)
  have "u \<in> set (users d)"
    using assms(1) by (rule resolve_reset_user_mem)
  then have "consumed ev request u u \<in> set (users ?d')"
    by simp
  then have "get_user_by_email ?d' (email (consumed ev request u u)) \<noteq> None"
    by (rule get_user_by_email_exists)
  then have "get_user_by_email ?d' (rp_email request) \<noteq> None"
    using assms(2) by simp
  then have "resolve_reset_user now' ?d' request \<noteq> None"
    by (rule email_resolves)
  moreover have "faults ?d' = []"
    using assms(3) by simp
  ultimately have "fst (reset_password ev now' ?d' request) =
      Inr (Message ''Password has been reset successfully'')"
    using shape by (intro reset_password_resolved_no_faults)
  with first cleared show ?thesis by simp
qed

theorem reset_password_repeat_witness:
  "resolve_reset_user 200 demo_issued demo_request = Some (hd (users demo_issued)) \<and>
   rp_email demo_request = email (hd (users demo_issued)) \<and>
   faults demo_issued = [] \<and>
   fst (reset_password demo_env 200 demo_issued demo_request) =
     Inr (Message ''Password has been reset successfully'') \<and>
   fst (reset_password demo_env 300
          (fst (snd (reset_password demo_env 200 demo_issued demo_request))) demo_request) =
     Inr (Message ''Password has been reset successfully'')"
proof -
  have r: "resolve_reset_user 200 demo_issued demo_request = Some (hd (users demo_issued))"
    by (simp add: resolve_reset_user_def get_user_by_reset_token_def token_live_def
        demo_issued_def demo_request_def)
  have e: "rp_email demo_request = email (hd (users demo_issued))"
    by (simp add: demo_issued_def demo_request_def alice_def)
  have f: "faults demo_issued = []"
    by (simp add: demo_issued_def)
  have s: "fst (reset_password demo_env 200 demo_issued demo_request) =
      Inr (Message ''Password has been reset successfully'')"
    using reset_password_no_faults [OF f _ _ r, of demo_env]
    by (simp add: demo_request_def demo_token_def)
  from reset_password_repeat [OF r e f s, of 300] r e f s show ?thesis by simp
qed

section \<open>Password-reset consumption: the two writes\<close>

text \<open>
  C4, as the specification states it, fails: the hash and the token fields are written
  by two store operations, and the result of the second is dropped. When the first goes
  through and the second does not, the call reports success with the new hash stored
  and the consumed token still in place.
\<close>

theorem reset_password_token_left_behind:
  "resolve_reset_user 200 (demo_issued\<lparr>faults := [None, Some ''connection lost'']\<rparr>) demo_request
     = Some (hd (users demo_issued)) \<and>
   reset_password demo_env 200 (demo_issued\<lparr>faults := [None, Some ''connection lost'']\<rparr>)
       demo_request =
     (Inr (Message ''Password has been reset successfully''),
      \<lparr>users = [alice\<lparr>hashed_password := ''#NewP@ss2'', reset_token := Some demo_token,
                       reset_token_expires := Some 3700\<rparr>],
       faults = []\<rparr>,
      [(INFO, ''Using demo token validation approach''),
       (INFO, ''Password reset successful for user: alice'')])"
  by (simp add: reset_password_def reset_password_update_def update_user_password_def
      store_reset_token_def update_credentials_def resolve_reset_user_def
      get_user_by_reset_token_def get_user_by_email_def take_fault_def token_live_def
      demo_issued_def demo_request_def demo_env_def demo_token_def alice_def)

text \<open>
  C4, amended. In a consumption call that resolves a user \<open>u\<close>, the new hash is written
  first, by a store operation of its own. When that write fails, the call fails with
  \<open>ResetPersistenceError\<close> and no row has changed, so no token field is cleared. When
  it goes through, the call reports success and the rows of \<open>u\<close> carry the new hash;
  the token fields are then cleared by a second store operation, both together when it
  goes through and neither when it does not.
\<close>

theorem reset_password_writes:
  assumes "32 \<le> length (rp_token request)" and "rp_email request \<noteq> []"
    and "resolve_reset_user now d request = Some u"
  shows "(case take_fault d of
      (Some msg, d1) \<Rightarrow>
        fst (reset_password ev now d request) = Inl ResetPersistenceError \<and>
        fst (snd (reset_password ev now d request)) = d1 \<and> users d1 = users d
    | (None, d1) \<Rightarrow>
        fst (reset_password ev now d request) =
          Inr (Message ''Password has been reset successfully'') \<and>
        (case take_fault d1 of
           (Some msg, d2) \<Rightarrow>
             users (fst (snd (reset_password ev now d request))) =
               map (\<lambda>v. if user_id v = user_id u
                         then v\<lparr>hashed_password := get_password_hash ev (rp_new_password request)\<rparr>
                         else v) (users d)
         | (None, d2) \<Rightarrow>
             users (fst (snd (reset_password ev now d request))) =
               map (consumed ev request u) (users d)))"
  using assms
  by (auto simp: reset_password_def reset_password_update_def update_user_password_def
      store_reset_token_def update_credentials_def ResetPersistenceError_def Let_def
      take_fault_def consumed_def
      split: option.splits prod.splits list.splits)

theorem reset_password_writes_witness:
  "32 \<le> length (rp_token demo_request) \<and> rp_email demo_request \<noteq> [] \<and>
   resolve_reset_user 200 demo_issued demo_request = Some (hd (users demo_issued)) \<and>
   fst (reset_password demo_env 200 demo_issued demo_request) =
     Inr (Message ''Password has been reset successfully'') \<and>
   users (fst (snd (reset_password demo_env 200 demo_issued demo_request))) =
     [alice\<lparr>hashed_password := ''#NewP@ss2''\<rparr>]"
  using reset_password_writes [of demo_request 200 demo_issued "hd (users demo_issued)" demo_env]
  by (simp add: resolve_reset_user_def get_user_by_reset_token_def get_user_by_email_def
      take_fault_def token_live_def demo_issued_def demo_request_def demo_token_def alice_def
      demo_env_def consumed_def)

section \<open>Password-reset issuance: what the caller sees\<close>

text \<open>
  C5. Of two password-reset issuance calls, one for an email that resolves to a
  registered user and one for an email that does not, the caller receives the same
  answer: the generic success message, whatever token is drawn and whatever the time.
\<close>

theorem forgot_password_same_response:
  assumes "get_user_by_email d (fp_email registered) = Some u"
    and "get_user_by_email d (fp_email unregistered) = None"
  shows "fst (forgot_password fresh now d registered) =
           fst (forgot_password fresh' now' d unregistered) \<and>
         fst (forgot_password fresh now d registered) = Inr (Message generic_reset_message)"
  using assms by (simp add: forgot_password_def Let_def split: prod.splits)

theorem forgot_password_same_response_witness:
  "get_user_by_email demo_db (fp_email \<lparr>fp_email = ''a@x.com''\<rparr>) = Some alice \<and>
   get_user_by_email demo_db (fp_email \<lparr>fp_email = ''nobody@x.com''\<rparr>) = None \<and>
   fst (forgot_password demo_token 100 demo_db \<lparr>fp_email = ''a@x.com''\<rparr>) =
     fst (forgot_password demo_token 100 demo_db \<lparr>fp_email = ''nobody@x.com''\<rparr>)"
proof -
  have a: "get_user_by_email demo_db (fp_email \<lparr>fp_email = ''a@x.com''\<rparr>) = Some alice"
    by (simp add: get_user_by_email_def demo_db_def alice_def)
  have b: "get_user_by_email demo_db (fp_email \<lparr>fp_email = ''nobody@x.com''\<rparr>) = None"
    by (simp add: get_user_by_email_def demo_db_def alice_def)
  from forgot_password_same_response [OF a b, of demo_token 100 demo_token 100] a b
  show ?thesis by simp
qed

text \<open>
  C7. When the email resolves to a user and the write of the token fails, the issuance
  call does not fail: the caller receives the generic success message, the same answer
  as when the write goes through. No row has changed (the token exists in the log only),
  and the failure is reported to the operators by a warning in the log.
\<close>

theorem forgot_password_write_failure:
  assumes "get_user_by_email d (fp_email request) = Some u"
    and "fst (take_fault d) = Some msg"
  shows "forgot_password fresh now d request =
     (Inr (Message generic_reset_message), snd (take_fault d),
      [(INFO, ''Password reset requested for user: '' @ username u),
       (INFO, ''Reset token generated: '' @ fresh),
       (WARNING, ''Token could not be stored in database - it will only be logged'')]) \<and>
     users (snd (take_fault d)) = users d \<and>
     fst (forgot_password fresh now d request) =
       fst (forgot_password fresh now (d\<lparr>faults := []\<rparr>) request)"
  using assms
  by (auto simp: forgot_password_def store_reset_token_def update_credentials_def
      take_fault_def get_user_by_email_def Let_def split: prod.splits list.splits option.splits)

theorem forgot_password_write_failure_witness:
  "get_user_by_email (demo_db\<lparr>faults := [Some ''disk full'']\<rparr>)
       (fp_email \<lparr>fp_email = ''a@x.com''\<rparr>) = Some alice \<and>
   fst (take_fault (demo_db\<lparr>faults := [Some ''disk full'']\<rparr>)) = Some ''disk full'' \<and>
   forgot_password demo_token 100 (demo_db\<lparr>faults := [Some ''disk full'']\<rparr>)
       \<lparr>fp_email = ''a@x.com''\<rparr> =
     (Inr (Message generic_reset_message), demo_db,
      [(INFO, ''Password reset requested for user: alice''),
       (INFO, ''Reset token generated: '' @ demo_token),
       (WARNING, ''Token could not be stored in database - it will only be logged'')])"
proof -
  let ?d = "demo_db\<lparr>faults := [Some ''disk full'']\<rparr>"
  have a: "get_user_by_email ?d (fp_email \<lparr>fp_email = ''a@x.com''\<rparr>) = Some alice"
    by (simp add: get_user_by_email_def demo_db_def alice_def)
  have b: "fst (take_fault ?d) = Some ''disk full''"
    by (simp add: take_fault_def)
  have c: "snd (take_fault ?d) = demo_db"
    by (simp add: take_fault_def demo_db_def)
  have n: "username alice = ''alice''"
    by (simp add: alice_def)
  from forgot_password_write_failure [OF a b, of demo_token 100] a b c n
  show ?thesis by simp
qed

section \<open>Password change: a wrong current password\<close>

text \<open>
  The exception raised for a wrong current password is caught by the handler of the
  same function and raised again with status 500; the table is left as it was.
\<close>

lemma change_password_mismatch:
  assumes "\<not> verify_password ev (pc_current_password password_change)
               (hashed_password current_user)"
  shows "change_password ev d current_user password_change =
     (Inl (HTTPException 500
             (''An error occurred while changing the password: '' @ str_exn IncorrectPassword) []),
      d, [(ERROR, ''Error changing password: '' @ str_exn IncorrectPassword)])"
  using assms
  by (simp add: change_password_def change_password_body_def IncorrectPassword_def)

text \<open>
  C6, evaluated on the code. The one user asks for a password change and supplies a
  current password that does not verify. The stored hash is unchanged, as the claim
  says, but the caller receives status 500, the status of an internal failure, and not
  the business error \<open>IncorrectPassword\<close> (status 400).
\<close>

theorem change_password_wrong_current:
  "\<not> verify_password demo_env ''wrong'' (hashed_password alice) \<and>
   change_password demo_env demo_db alice
       \<lparr>pc_current_password = ''wrong'', pc_new_password = ''NewP@ss2''\<rparr> =
     (Inl (HTTPException 500
        ''An error occurred while changing the password: 400: Incorrect current password'' []),
      demo_db,
      [(ERROR, ''Error changing password: 400: Incorrect current password'')]) \<and>
   fst (change_password demo_env demo_db alice
       \<lparr>pc_current_password = ''wrong'', pc_new_password = ''NewP@ss2''\<rparr>) \<noteq> Inl IncorrectPassword"
  by (simp add: change_password_def change_password_body_def IncorrectPassword_def
      demo_env_def alice_def)

section \<open>Profile update: the frame\<close>

lemma filter_map_untouched:
  assumes "\<And>x. P (g x) = P x" and "\<And>x. P x \<Longrightarrow> g x = x"
  shows "filter P (map g xs) = filter P xs"
  using assms by (induction xs) auto

lemma db_update_Inr:
  "db_update d P f = (Inr x, d') \<Longrightarrow> users d' = map (\<lambda>u. if P u then f u else u) (users d)"
  by (auto simp: db_update_def take_fault_def split: list.splits option.splits)

lemma db_select_users: "db_select d P = (r, d') \<Longrightarrow> users d' = users d"
  by (auto simp: db_select_def take_fault_def split: list.splits option.splits)

lemma uniqueness_check_users:
  assumes "(case db_select d P of
              (Inl e, d1) \<Rightarrow> (Inl e, d1)
            | (Inr (Some row), d1) \<Rightarrow> (Inl X, d1)
            | (Inr None, d1) \<Rightarrow> (Inr (), d1)) = (Inr x, d')"
  shows "users d' = users d"
proof (cases "db_select d P")
  case (Pair res d1)
  with assms have "d' = d1"
    by (cases res) (auto split: option.splits)
  with Pair show ?thesis
    by (auto dest: db_select_users)
qed

lemma update_user_profile_body_Inr:
  assumes "update_user_profile_body d current_user user_update = (Inr r, d')"
  shows "users d' =
     map (\<lambda>u. if user_id u = user_id current_user
               then u\<lparr>username := uu_username user_update, email := uu_email user_update\<rparr>
               else u) (users d)"
proof -
  define c1 where "c1 =
    (if uu_username user_update \<noteq> username current_user then
       (case db_select d (\<lambda>u. username u = uu_username user_update) of
          (Inl e, d1) \<Rightarrow> (Inl e, d1)
        | (Inr (Some row), d1) \<Rightarrow>
            (Inl (HTTPException 400 ''Username already exists'' []), d1)
        | (Inr None, d1) \<Rightarrow> (Inr (), d1))
     else (Inr (), d))"
  define c2 where "c2 d1 =
    (if uu_email user_update \<noteq> email current_user then
       (case db_select d1 (\<lambda>u. email u = uu_email user_update) of
          (Inl e, d2) \<Rightarrow> (Inl e, d2)
        | (Inr (Some row), d2) \<Rightarrow>
            (Inl (HTTPException 400 ''Email already exists'' []), d2)
        | (Inr None, d2) \<Rightarrow> (Inr (), d2))
     else (Inr (), d1))" for d1
  define w where "w d2 =
    db_update d2 (\<lambda>u. user_id u = user_id current_user)
      (\<lambda>u. u\<lparr>username := uu_username user_update, email := uu_email user_update\<rparr>)" for d2
  have body: "update_user_profile_body d current_user user_update =
    (case c1 of
       (Inl e, d1) \<Rightarrow> (Inl e, d1)
     | (Inr x, d1) \<Rightarrow>
         (case c2 d1 of
            (Inl e, d2) \<Rightarrow> (Inl e, d2)
          | (Inr y, d2) \<Rightarrow>
              (case w d2 of
                 (Inl e, d3) \<Rightarrow> (Inl e, d3)
               | (Inr z, d3) \<Rightarrow>
                   (Inr (UserData (user_id current_user) (uu_username user_update)
                           (uu_email user_update) (is_active current_user)), d3))))"
    unfolding update_user_profile_body_def c1_def c2_def w_def ..
  obtain r1 d1 where p1: "c1 = (r1, d1)" by (cases c1)
  obtain r2 d2 where p2: "c2 d1 = (r2, d2)" by (cases "c2 d1")
  obtain r3 d3 where p3: "w d2 = (r3, d3)" by (cases "w d2")
  from assms body p1 obtain x where x: "r1 = Inr x"
    by (cases r1) auto
  from assms body p1 p2 x obtain y where y: "r2 = Inr y"
    by (cases r2) auto
  from assms body p1 p2 p3 x y obtain z where z: "r3 = Inr z" and d': "d' = d3"
    by (cases r3) auto
  have u1: "users d1 = users d"
    using p1 x unfolding c1_def
    by (auto split: if_splits dest: uniqueness_check_users)
  have u2: "users d2 = users d1"
    using p2 y unfolding c2_def
    by (auto split: if_splits dest: uniqueness_check_users)
  have "users d3 = map (\<lambda>u. if user_id u = user_id current_user
               then u\<lparr>username := uu_username user_update, email := uu_email user_update\<rparr>
               else u) (users d2)"
    using p3 z unfolding w_def by (auto dest: db_update_Inr)
  with u1 u2 d' show ?thesis by simp
qed

lemma update_user_profile_Inr:
  assumes "fst (update_user_profile d current_user user_update) = Inr r"
  shows "update_user_profile_body d current_user user_update =
           (Inr r, fst (snd (update_user_profile d current_user user_update)))"
  using assms
  by (auto simp: update_user_profile_def split: prod.splits sum.splits)

text \<open>
  C9. A profile update that succeeds rewrites the rows carrying the caller's id with
  the new username and email and nothing else: in every row the id, the password hash,
  the activity flag, the three lockout fields and the two reset-token fields are what
  they were, and the rows of other users are untouched.
\<close>

theorem update_user_profile_frame:
  assumes "fst (update_user_profile d current_user user_update) = Inr r"
  shows "users (fst (snd (update_user_profile d current_user user_update))) =
           map (\<lambda>u. if user_id u = user_id current_user
                     then u\<lparr>username := uu_username user_update, email := uu_email user_update\<rparr>
                     else u) (users d) \<and>
         map credential_fields (users (fst (snd (update_user_profile d current_user user_update))))
           = map credential_fields (users d) \<and>
         other_rows (user_id current_user) (fst (snd (update_user_profile d current_user user_update)))
           = other_rows (user_id current_user) d"
proof -
  let ?d' = "fst (snd (update_user_profile d current_user user_update))"
  let ?g = "\<lambda>u. if user_id u = user_id current_user
                then u\<lparr>username := uu_username user_update, email := uu_email user_update\<rparr>
                else u"
  have u: "users ?d' = map ?g (users d)"
    using update_user_profile_body_Inr [OF update_user_profile_Inr [OF assms]] .
  have c: "map credential_fields (map ?g (users d)) = map credential_fields (users d)"
    by (simp add: credential_fields_def)
  have o: "filter (\<lambda>u. user_id u \<noteq> user_id current_user) (map ?g (users d)) =
           filter (\<lambda>u. user_id u \<noteq> user_id current_user) (users d)"
    by (rule filter_map_untouched) auto
  show ?thesis using u c o by (simp add: other_rows_def)
qed

theorem update_user_profile_frame_witness:
  "fst (update_user_profile demo_db alice \<lparr>uu_username = ''alice2'', uu_email = ''a2@x.com''\<rparr>) =
     Inr (UserData 1 ''alice2'' ''a2@x.com'' True) \<and>
   users (fst (snd (update_user_profile demo_db alice
          \<lparr>uu_username = ''alice2'', uu_email = ''a2@x.com''\<rparr>))) =
     [alice\<lparr>username := ''alice2'', email := ''a2@x.com''\<rparr>] \<and>
   map credential_fields
     (users (fst (snd (update_user_profile demo_db alice
          \<lparr>uu_username = ''alice2'', uu_email = ''a2@x.com''\<rparr>)))) =
     map credential_fields (users demo_db)"
proof -
  let ?up = "\<lparr>uu_username = ''alice2'', uu_email = ''a2@x.com''\<rparr>"
  have s: "fst (update_user_profile demo_db alice ?up) =
     Inr (UserData 1 ''alice2'' ''a2@x.com'' True)"
    by (simp add: update_user_profile_def update_user_profile_body_def db_select_def
        db_update_def take_fault_def demo_db_def alice_def)
  have m: "map (\<lambda>u. if user_id u = user_id alice
                     then u\<lparr>username := uu_username ?up, email := uu_email ?up\<rparr>
                     else u) (users demo_db) =
           [alice\<lparr>username := ''alice2'', email := ''a2@x.com''\<rparr>]"
    by (simp add: demo_db_def)
  from update_user_profile_frame [OF s]
  have u: "users (fst (snd (update_user_profile demo_db alice ?up))) =
             map (\<lambda>u. if user_id u = user_id alice
                       then u\<lparr>username := uu_username ?up, email := uu_email ?up\<rparr>
                       else u) (users demo_db)"
    and c: "map credential_fields (users (fst (snd (update_user_profile demo_db alice ?up)))) =
             map credential_fields (users demo_db)"
    by blast+
  from u m have "users (fst (snd (update_user_profile demo_db alice ?up))) =
      [alice\<lparr>username := ''alice2'', email := ''a2@x.com''\<rparr>]"
    by (rule trans)
  with s c show ?thesis by blast
qed

section \<open>Password-reset consumption: the email of the request\<close>

lemma EmailStr_nonempty: "EmailStr s \<Longrightarrow> s \<noteq> []"
  by (auto simp: EmailStr_def)

lemma parse_ResetPasswordRequest_Inr:
  assumes "parse_ResetPasswordRequest body = Inr request"
  shows "body ''email'' = Some (rp_email request) \<and> EmailStr (rp_email request)"
  using assms
  by (auto simp: parse_ResetPasswordRequest_def split: option.splits if_splits)

text \<open>A body without an email, or with an empty one, never reaches the handler.\<close>

lemma rejected_without_email:
  "parse_ResetPasswordRequest [''token'' \<mapsto> demo_token, ''new_password'' \<mapsto> ''N'']
     = Inl (HTTPException 422 ''field required'' []) \<and>
   parse_ResetPasswordRequest [''token'' \<mapsto> demo_token, ''new_password'' \<mapsto> ''N'', ''email'' \<mapsto> '''']
     = Inl (HTTPException 422 ''value is not a valid email address'' [])"
  by (simp add: parse_ResetPasswordRequest_def EmailStr_def)

text \<open>
  C10. In every password-reset consumption request the schema accepts, the email field
  is present in the body and validated, hence not empty; the handler therefore never
  takes the branch that fails with "Please provide your email along with the token",
  neither called on the request nor through the endpoint on the body.
\<close>

theorem reset_password_email_always_present:
  assumes "parse_ResetPasswordRequest body = Inr request"
  shows "body ''email'' = Some (rp_email request) \<and> EmailStr (rp_email request) \<and>
         rp_email request \<noteq> [] \<and>
         fst (reset_password ev now d request) \<noteq>
           Inl (HTTPException 400 ''Please provide your email along with the token'' []) \<and>
         fst (reset_password_endpoint ev now d body) \<noteq>
           Inl (HTTPException 400 ''Please provide your email along with the token'' [])"
proof -
  from parse_ResetPasswordRequest_Inr [OF assms]
  have p: "body ''email'' = Some (rp_email request)" and v: "EmailStr (rp_email request)"
    by simp_all
  from v have ne: "rp_email request \<noteq> []"
    by (rule EmailStr_nonempty)
  have r: "fst (reset_password ev now d request) \<noteq>
      Inl (HTTPException 400 ''Please provide your email along with the token'' [])"
    using ne
    by (auto simp: reset_password_def reset_password_update_def Let_def
        split: option.splits prod.splits if_splits)
  have "reset_password_endpoint ev now d body = reset_password ev now d request"
    using assms by (simp add: reset_password_endpoint_def)
  with p v ne r show ?thesis by simp
qed

theorem reset_password_email_always_present_witness:
  "parse_ResetPasswordRequest
     [''token'' \<mapsto> demo_token, ''new_password'' \<mapsto> ''NewP@ss2'', ''email'' \<mapsto> ''a@x.com'']
     = Inr demo_request \<and>
   EmailStr (rp_email demo_request) \<and>
   fst (reset_password demo_env 0 demo_db demo_request) \<noteq>
     Inl (HTTPException 400 ''Please provide your email along with the token'' [])"
proof -
  have p: "parse_ResetPasswordRequest
     [''token'' \<mapsto> demo_token, ''new_password'' \<mapsto> ''NewP@ss2'', ''email'' \<mapsto> ''a@x.com'']
     = Inr demo_request"
    by (simp add: parse_ResetPasswordRequest_def EmailStr_def demo_request_def)
  from reset_password_email_always_present [OF p, of demo_env 0 demo_db] p
  show ?thesis by simp
qed

section \<open>Authentication: the lockout\<close>

lemma update_credentials_no_faults:
  "faults d = [] \<Longrightarrow>
   update_credentials d uid f =
     (True, d\<lparr>users := map (\<lambda>u. if user_id u = uid then f u else u) (users d)\<rparr>)"
  by (simp add: update_credentials_def take_fault_def)

lemma username_record_failure [simp]: "username (record_failure ev t n v) = username v"
  by (simp add: record_failure_def)

lemma login_wrong_password:
  assumes "find (\<lambda>u. username u = uname) (users d) = Some u"
    and "account_locked_until u = None"
    and "faults d = []"
    and "\<not> verify_password ev pw (hashed_password u)"
  shows "login_for_access_token ev t d uname pw =
           (Inl InvalidCredentials, failed_once ev t u d, [])"
  using assms
  by (simp add: login_for_access_token_def authenticate_user_def lock_remaining_def
      update_credentials_no_faults InvalidCredentials_def failed_once_def)

lemma find_failed_once:
  assumes "find (\<lambda>u. username u = uname) (users d) = Some u"
  shows "find (\<lambda>u. username u = uname) (users (failed_once ev t u d)) =
           Some (record_failure ev t (failed_login_attempts u + 1) u)"
proof -
  have "find (\<lambda>u. username u = uname)
          (map (\<lambda>v. if user_id v = user_id u
                     then record_failure ev t (failed_login_attempts u + 1) v else v) (users d)) =
        Some (if user_id u = user_id u
              then record_failure ev t (failed_login_attempts u + 1) u else u)"
    using assms by (rule find_map_preserved) simp
  then show ?thesis by (simp add: failed_once_def)
qed

lemma faults_failed_once [simp]: "faults (failed_once ev t u d) = faults d"
  by (simp add: failed_once_def)

lemma failures_below_threshold:
  assumes "find (\<lambda>u. username u = uname) (users d) = Some u"
    and "account_locked_until u = None"
    and "faults d = []"
    and "\<forall>(t, pw) \<in> set atts. \<not> verify_password ev pw (hashed_password u)"
    and "failed_login_attempts u + int (length atts) < lockout_threshold ev"
  shows "\<exists>d' u'. login_attempts ev d uname atts =
                    (replicate (length atts) (Inl InvalidCredentials), d') \<and>
                 find (\<lambda>u. username u = uname) (users d') = Some u' \<and>
                 account_locked_until u' = None \<and> faults d' = [] \<and>
                 failed_login_attempts u' = failed_login_attempts u + int (length atts) \<and>
                 hashed_password u' = hashed_password u"
  using assms
proof (induction atts arbitrary: d u)
  case Nil
  then show ?case by simp
next
  case (Cons a atts)
  obtain t pw where a: "a = (t, pw)" by (cases a)
  let ?u1 = "record_failure ev t (failed_login_attempts u + 1) u"
  let ?d1 = "failed_once ev t u d"
  from Cons.prems a have wrong: "\<not> verify_password ev pw (hashed_password u)"
    by simp
  have step: "login_for_access_token ev t d uname pw = (Inl InvalidCredentials, ?d1, [])"
    using Cons.prems(1-3) wrong by (rule login_wrong_password)
  have below: "\<not> lockout_threshold ev \<le> failed_login_attempts u + 1"
    using Cons.prems(5) by simp
  have f1: "find (\<lambda>u. username u = uname) (users ?d1) = Some ?u1"
    using Cons.prems(1) by (rule find_failed_once)
  have l1: "account_locked_until ?u1 = None"
    using below Cons.prems(2) by (simp add: record_failure_def)
  have h1: "hashed_password ?u1 = hashed_password u"
    by (simp add: record_failure_def)
  have c1: "failed_login_attempts ?u1 = failed_login_attempts u + 1"
    by (simp add: record_failure_def)
  have q1: "faults ?d1 = []"
    using Cons.prems(3) by simp
  have w1: "\<forall>(t, pw) \<in> set atts. \<not> verify_password ev pw (hashed_password ?u1)"
    using Cons.prems(4) h1 by simp
  have b1: "failed_login_attempts ?u1 + int (length atts) < lockout_threshold ev"
    using Cons.prems(5) c1 by simp
  from Cons.IH [OF f1 l1 q1 w1 b1] obtain d' u' where
    run: "login_attempts ev ?d1 uname atts =
            (replicate (length atts) (Inl InvalidCredentials), d')"
    and rest: "find (\<lambda>u. username u = uname) (users d') = Some u'"
      "account_locked_until u' = None" "faults d' = []"
      "failed_login_attempts u' = failed_login_attempts ?u1 + int (length atts)"
      "hashed_password u' = hashed_password ?u1"
    by blast
  have "login_attempts ev d uname (a # atts) =
          (replicate (length (a # atts)) (Inl InvalidCredentials), d')"
    using a step run by simp
  with rest c1 h1 show ?case by simp
qed

lemma login_attempts_append:
  "login_attempts ev d uname (xs @ ys) =
     (case login_attempts ev d uname xs of
        (rs, d1) \<Rightarrow>
          (case login_attempts ev d1 uname ys of
             (rs', d2) \<Rightarrow> (rs @ rs', d2)))"
  by (induction xs arbitrary: d) (auto split: prod.splits)

lemma login_locked:
  assumes "find (\<lambda>u. username u = uname) (users d) = Some u"
    and "account_locked_until u = Some until" and "now < until"
  shows "login_for_access_token ev now d uname pw = (Inl (AccountLocked (until - now)), d, [])"
  using assms
  by (simp add: login_for_access_token_def authenticate_user_def lock_remaining_def)

text \<open>
  C3. A user with no failure counted and no lock set is the target of N login attempts
  with wrong passwords, N being the configured threshold, while the store does not
  fail. Each of the N attempts is answered with invalid credentials. From the time of
  the last of them until the lock window has elapsed, an attempt with any password, the
  correct one included, fails with \<open>AccountLocked\<close>, carrying the remaining duration,
  and leaves the database as it is, so that the attempts after it within the window
  fail in the same way.
\<close>

theorem account_locked_after_threshold:
  assumes "find (\<lambda>u. username u = uname) (users d) = Some u"
    and "failed_login_attempts u = 0" and "account_locked_until u = None"
    and "faults d = []"
    and "0 < lockout_threshold ev"
    and "int (length attempts) = lockout_threshold ev"
    and "\<forall>(t, pw) \<in> set attempts. \<not> verify_password ev pw (hashed_password u)"
    and "fst (last attempts) \<le> now"
    and "now < fst (last attempts) + lockout_window ev"
  shows "fst (login_attempts ev d uname attempts) =
           replicate (length attempts) (Inl InvalidCredentials) \<and>
         login_for_access_token ev now (snd (login_attempts ev d uname attempts)) uname password =
           (Inl (AccountLocked (fst (last attempts) + lockout_window ev - now)),
            snd (login_attempts ev d uname attempts), [])"
proof -
  from assms(5,6) have ne: "attempts \<noteq> []" by auto
  define before where "before = butlast attempts"
  obtain t pw where l: "last attempts = (t, pw)" by (cases "last attempts")
  have split: "attempts = before @ [(t, pw)]"
    using ne l by (simp add: before_def flip: l)
  have len: "int (length before) + 1 = lockout_threshold ev"
    using assms(6) split by simp
  have w: "\<forall>(t, pw) \<in> set before. \<not> verify_password ev pw (hashed_password u)"
    using assms(7) split by simp
  have b: "failed_login_attempts u + int (length before) < lockout_threshold ev"
    using assms(2) len by simp
  from failures_below_threshold [OF assms(1,3,4) w b] obtain d1 u1 where
    run: "login_attempts ev d uname before =
            (replicate (length before) (Inl InvalidCredentials), d1)"
    and f1: "find (\<lambda>u. username u = uname) (users d1) = Some u1"
    and l1: "account_locked_until u1 = None" and q1: "faults d1 = []"
    and c1: "failed_login_attempts u1 = failed_login_attempts u + int (length before)"
    and h1: "hashed_password u1 = hashed_password u"
    by blast
  have wrong: "\<not> verify_password ev pw (hashed_password u1)"
    using assms(7) split h1 by simp
  let ?d2 = "failed_once ev t u1 d1"
  let ?u2 = "record_failure ev t (failed_login_attempts u1 + 1) u1"
  have step: "login_for_access_token ev t d1 uname pw = (Inl InvalidCredentials, ?d2, [])"
    using f1 l1 q1 wrong by (rule login_wrong_password)
  have total: "login_attempts ev d uname attempts =
      (replicate (length attempts) (Inl InvalidCredentials), ?d2)"
    using run step by (simp add: split login_attempts_append replicate_append_same)
  have f2: "find (\<lambda>u. username u = uname) (users ?d2) = Some ?u2"
    using f1 by (rule find_failed_once)
  have reached: "lockout_threshold ev \<le> failed_login_attempts u1 + 1"
    using c1 assms(2) len by simp
  then have l2: "account_locked_until ?u2 = Some (t + lockout_window ev)"
    by (simp add: record_failure_def)
  have "now < t + lockout_window ev"
    using assms(9) l by simp
  with f2 l2 have "login_for_access_token ev now ?d2 uname password =
      (Inl (AccountLocked (t + lockout_window ev - now)), ?d2, [])"
    by (rule login_locked)
  with total l show ?thesis by simp
qed

theorem account_locked_after_threshold_witness:
  "verify_password demo_env ''P@ss1'' (hashed_password alice) \<and>
   lockout_threshold demo_env = 3 \<and>
   fst (login_attempts demo_env demo_db ''alice'' [(1, ''guess1''), (2, ''guess2''), (3, ''guess3'')])
     = [Inl InvalidCredentials, Inl InvalidCredentials, Inl InvalidCredentials] \<and>
   fst (login_for_access_token demo_env 4
     (snd (login_attempts demo_env demo_db ''alice''
        [(1, ''guess1''), (2, ''guess2''), (3, ''guess3'')])) ''alice'' ''P@ss1'')
     = Inl (AccountLocked 899)"
proof -
  have a1: "find (\<lambda>u. username u = ''alice'') (users demo_db) = Some alice"
    by (simp add: demo_db_def alice_def)
  have a2: "failed_login_attempts alice = 0" and a3: "account_locked_until alice = None"
    by (simp_all add: alice_def)
  have a4: "faults demo_db = []"
    by (simp add: demo_db_def)
  have a5: "0 < lockout_threshold demo_env"
    and a6: "int (length [(1::int, ''guess1''), (2, ''guess2''), (3, ''guess3'')])
               = lockout_threshold demo_env"
    by (simp_all add: demo_env_def)
  have a7: "\<forall>(t, pw) \<in> set [(1::int, ''guess1''), (2, ''guess2''), (3, ''guess3'')].
              \<not> verify_password demo_env pw (hashed_password alice)"
    by (simp add: demo_env_def alice_def)
  have a8: "fst (last [(1::int, ''guess1''), (2, ''guess2''), (3, ''guess3'')]) \<le> 4"
    by simp
  have a9: "(4::int) < fst (last [(1::int, ''guess1''), (2, ''guess2''), (3, ''guess3'')])
              + lockout_window demo_env"
    by (simp add: demo_env_def)
  have v: "verify_password demo_env ''P@ss1'' (hashed_password alice)"
    by (simp add: demo_env_def alice_def)
  have n: "lockout_threshold demo_env = 3" "lockout_window demo_env = 900"
    by (simp_all add: demo_env_def)
  from account_locked_after_threshold [OF a1 a2 a3 a4 a5 a6 a7 a8 a9, of "''P@ss1''"] v n
  show ?thesis by (simp add: numeral_3_eq_3)
qed

end
